theory Spec2Isabelle
  imports Complex_Main
begin

section \<open>JavaScript numbers\<close>

text \<open>
  A JavaScript number is an IEEE double: a finite value, one of the two zeros,
  an infinity or NaN. \<open>Fin x\<close> is the finite double of value \<open>x\<close>, with
  \<open>Fin 0\<close> the positive zero; \<open>NZero\<close> is the negative zero.

  The four arithmetic operations round. Their special cases (NaN, the
  infinities, the zeros and their signs) are written out below as IEEE 754
  fixes them; where both operands are finite and the exact result is not zero,
  the result is the exact result rounded, and the rounding \<open>rnd\<close> (to the
  nearest double, to an infinity on overflow, to a zero on underflow) is a
  parameter of every function that computes. Nothing is assumed of it: what
  is proved for every \<open>rnd\<close> holds of the doubles.
\<close>

datatype jsnum = Fin real | NZero | PInf | NInf | NaN

fun is_finite :: "jsnum \<Rightarrow> bool" where
  "is_finite (Fin x) = True"
| "is_finite NZero = True"
| "is_finite PInf = False"
| "is_finite NInf = False"
| "is_finite NaN = False"

definition is_zero :: "jsnum \<Rightarrow> bool" where
  "is_zero a = (a = Fin 0 \<or> a = NZero)"

definition is_inf :: "jsnum \<Rightarrow> bool" where
  "is_inf a = (a = PInf \<or> a = NInf)"

text \<open>The sign bit, and the value of a finite number.\<close>

fun sign_bit :: "jsnum \<Rightarrow> bool" where
  "sign_bit (Fin x) = (x < 0)"
| "sign_bit NZero = True"
| "sign_bit PInf = False"
| "sign_bit NInf = True"
| "sign_bit NaN = False"

fun fin_val :: "jsnum \<Rightarrow> real" where
  "fin_val (Fin x) = x"
| "fin_val a = 0"

definition zero_of :: "bool \<Rightarrow> jsnum" where
  "zero_of negative = (if negative then NZero else Fin 0)"

definition inf_of :: "bool \<Rightarrow> jsnum" where
  "inf_of negative = (if negative then NInf else PInf)"

fun jneg :: "jsnum \<Rightarrow> jsnum" where
  "jneg (Fin x) = (if x = 0 then NZero else Fin (- x))"
| "jneg NZero = Fin 0"
| "jneg PInf = NInf"
| "jneg NInf = PInf"
| "jneg NaN = NaN"

text \<open>
  \<open>a + b\<close>: opposite infinities give NaN; two zeros give the negative zero only
  when both are negative; a zero leaves the other operand as it is; an exact sum
  of zero is the positive zero.
\<close>

definition jadd :: "(real \<Rightarrow> jsnum) \<Rightarrow> jsnum \<Rightarrow> jsnum \<Rightarrow> jsnum" where
  "jadd rnd a b =
     (if a = NaN \<or> b = NaN then NaN
      else if is_inf a then (if is_inf b \<and> a \<noteq> b then NaN else a)
      else if is_inf b then b
      else if is_zero a \<and> is_zero b then zero_of (sign_bit a \<and> sign_bit b)
      else if is_zero a then b
      else if is_zero b then a
      else if fin_val a + fin_val b = 0 then Fin 0
      else rnd (fin_val a + fin_val b))"

text \<open>\<open>a - b\<close> is \<open>a + (-b)\<close>.\<close>

definition jsub :: "(real \<Rightarrow> jsnum) \<Rightarrow> jsnum \<Rightarrow> jsnum \<Rightarrow> jsnum" where
  "jsub rnd a b = jadd rnd a (jneg b)"

text \<open>
  \<open>a * b\<close>: an infinity times a zero is NaN; otherwise the sign is the
  exclusive or of the signs.
\<close>

definition jmul :: "(real \<Rightarrow> jsnum) \<Rightarrow> jsnum \<Rightarrow> jsnum \<Rightarrow> jsnum" where
  "jmul rnd a b =
     (if a = NaN \<or> b = NaN then NaN
      else if (is_inf a \<and> is_zero b) \<or> (is_zero a \<and> is_inf b) then NaN
      else if is_inf a \<or> is_inf b then inf_of (sign_bit a \<noteq> sign_bit b)
      else if is_zero a \<or> is_zero b then zero_of (sign_bit a \<noteq> sign_bit b)
      else rnd (fin_val a * fin_val b))"

text \<open>
  \<open>a / b\<close>: an infinity over an infinity and a zero over a zero are NaN; a
  division by a zero is an infinity; a zero dividend or an infinite divisor give
  a zero; the sign is the exclusive or of the signs.
\<close>

definition jdiv :: "(real \<Rightarrow> jsnum) \<Rightarrow> jsnum \<Rightarrow> jsnum \<Rightarrow> jsnum" where
  "jdiv rnd a b =
     (if a = NaN \<or> b = NaN then NaN
      else if (is_inf a \<and> is_inf b) \<or> (is_zero a \<and> is_zero b) then NaN
      else if is_inf a \<or> is_zero b then inf_of (sign_bit a \<noteq> sign_bit b)
      else if is_zero a \<or> is_inf b then zero_of (sign_bit a \<noteq> sign_bit b)
      else rnd (fin_val a / fin_val b))"

text \<open>
  \<open>a <= b\<close> and \<open>a > b\<close> do not round. Every comparison with NaN is false,
  and the two zeros are equal.
\<close>

definition jle :: "jsnum \<Rightarrow> jsnum \<Rightarrow> bool" where
  "jle a b =
     (if a = NaN \<or> b = NaN then False
      else if a = NInf \<or> b = PInf then True
      else if a = PInf \<or> b = NInf then False
      else fin_val a \<le> fin_val b)"

definition jgt :: "jsnum \<Rightarrow> jsnum \<Rightarrow> bool" where
  "jgt a b =
     (if a = NaN \<or> b = NaN then False
      else if a = NInf \<or> b = PInf then False
      else if a = PInf \<or> b = NInf then True
      else fin_val a > fin_val b)"

section \<open>Exceptions\<close>

text \<open>
  What the code can throw: the \<open>SyntaxError\<close> of \<open>JSON.parse\<close>, the
  \<open>TypeError\<close> of the engine and of the HTTP client, and the \<open>Error\<close> the
  backtest route creates with its message. A function that can throw returns
  \<open>Inl\<close> of the exception or \<open>Inr\<close> of its value.
\<close>

datatype js_error = SyntaxError | TypeError | Error string

section \<open>The stores loaded at start\<close>

text \<open>
  \<open>data/price_series.json\<close> maps a token to an array of \<open>{timestamp, price}\<close>
  objects, \<open>data/unlocks.json\<close> is an array of
  \<open>{token, timestamp, amountUsd, shortable}\<close> objects. Both files are read once
  and taken as well typed. Timestamps stay the strings they are in the files;
  \<open>Date.parse\<close>, a built-in of the language, is a parameter of every function that
  calls it (it yields NaN for a string that is no date).
\<close>

record price_point =
  pt_timestamp :: string
  pt_price :: jsnum

record unlock_event =
  token :: string
  timestamp :: string
  amountUsd :: jsnum
  shortable :: bool

text \<open>The own properties of the object \<open>priceSeries\<close>: the tokens the file lists.\<close>

type_synonym price_store = "string \<rightharpoonup> price_point list"

text \<open>
  \<open>priceSeries[token]\<close> is a property read on an ordinary object: for a name
  the file does not list it finds what the object inherits from
  \<open>Object.prototype\<close>. These are the inherited names: functions, with their
  \<open>length\<close>, and \<open>__proto__\<close>, which reads as the prototype object itself
  and has no \<open>length\<close>.
\<close>

datatype inherited = InheritedFunction nat | InheritedObject

definition Object_prototype :: "string \<rightharpoonup> inherited" where
  "Object_prototype =
     map_of
       [(''constructor'', InheritedFunction 1),
        (''__defineGetter__'', InheritedFunction 2),
        (''__defineSetter__'', InheritedFunction 2),
        (''hasOwnProperty'', InheritedFunction 1),
        (''__lookupGetter__'', InheritedFunction 1),
        (''__lookupSetter__'', InheritedFunction 1),
        (''isPrototypeOf'', InheritedFunction 1),
        (''propertyIsEnumerable'', InheritedFunction 1),
        (''toString'', InheritedFunction 0),
        (''valueOf'', InheritedFunction 0),
        (''toLocaleString'', InheritedFunction 0),
        (''__proto__'', InheritedObject)]"

section \<open>getPrice\<close>

text \<open>
  The loop of \<open>getPrice\<close> over a series of the file: \<open>price\<close> starts undefined
  (\<open>None\<close>), each sample whose parsed timestamp is \<open><= ts\<close> overwrites it, and
  the first sample for which the comparison is false ends the loop.
\<close>

fun getPrice_loop :: "(string \<Rightarrow> jsnum) \<Rightarrow> price_point list \<Rightarrow> jsnum \<Rightarrow> jsnum option \<Rightarrow> jsnum option" where
  "getPrice_loop Date_parse [] ts price = price"
| "getPrice_loop Date_parse (p # series) ts price =
     (let pTs = Date_parse (pt_timestamp p) in
      if jle pTs ts then getPrice_loop Date_parse series ts (Some (pt_price p))
      else price)"

text \<open>
  \<open>getPrice\<close>. A listed token has its series. A name that is neither listed
  nor inherited reads as \<open>undefined\<close>, and the guard \<open>if (!series)\<close> returns.
  An inherited name reads as a truthy value and passes the guard: for a
  function of length 0, and for \<open>__proto__\<close>, whose \<open>length\<close> is undefined,
  the condition \<open>i < series.length\<close> is false at once and \<open>price\<close> is returned
  undefined; for a function of a greater length, \<open>series[0]\<close> is undefined and
  reading its \<open>timestamp\<close> throws a \<open>TypeError\<close>.
\<close>

definition getPrice ::
  "(string \<Rightarrow> jsnum) \<Rightarrow> price_store \<Rightarrow> string \<Rightarrow> jsnum \<Rightarrow> js_error + jsnum option" where
  "getPrice Date_parse priceSeries tok ts =
     (case priceSeries tok of
        Some series \<Rightarrow> Inr (getPrice_loop Date_parse series ts None)
      | None \<Rightarrow>
          (case Object_prototype tok of
             None \<Rightarrow> Inr None
           | Some (InheritedFunction n) \<Rightarrow> if 0 < n then Inl TypeError else Inr None
           | Some InheritedObject \<Rightarrow> Inr None))"

section \<open>backtest\<close>

record backtest_result =
  trades :: nat
  winRate :: jsnum
  avgRoi :: jsnum

text \<open>
  The body of the \<open>forEach\<close> callback, on the three counters \<open>trades\<close>
  (here \<open>ntrades\<close>, as \<open>trades\<close> names the field of the result), \<open>wins\<close> and
  \<open>totalRoi\<close> it updates. The two counters of events are natural numbers (an
  array has fewer than \<open>2^32\<close> elements, so they never leave the integers a
  double holds exactly); \<open>totalRoi\<close> is a number like the prices. Either call of
  \<open>getPrice\<close> may throw, which ends the callback.
\<close>

definition buyTs_of :: "(real \<Rightarrow> jsnum) \<Rightarrow> (string \<Rightarrow> jsnum) \<Rightarrow> jsnum \<Rightarrow> unlock_event \<Rightarrow> jsnum" where
  "buyTs_of rnd Date_parse hoursBefore ev =
     jsub rnd (Date_parse (timestamp ev)) (jmul rnd (jmul rnd hoursBefore (Fin 3600)) (Fin 1000))"

definition sellTs_of :: "(real \<Rightarrow> jsnum) \<Rightarrow> (string \<Rightarrow> jsnum) \<Rightarrow> jsnum \<Rightarrow> unlock_event \<Rightarrow> jsnum" where
  "sellTs_of rnd Date_parse hoursAfter ev =
     jadd rnd (Date_parse (timestamp ev)) (jmul rnd (jmul rnd hoursAfter (Fin 3600)) (Fin 1000))"

definition roi_of :: "(real \<Rightarrow> jsnum) \<Rightarrow> jsnum \<Rightarrow> jsnum \<Rightarrow> jsnum" where
  "roi_of rnd buyPrice sellPrice = jdiv rnd (jsub rnd sellPrice buyPrice) buyPrice"

fun backtest_event ::
  "(real \<Rightarrow> jsnum) \<Rightarrow> (string \<Rightarrow> jsnum) \<Rightarrow> price_store \<Rightarrow> string \<Rightarrow> jsnum \<Rightarrow> jsnum \<Rightarrow>
   nat \<times> nat \<times> jsnum \<Rightarrow> unlock_event \<Rightarrow> js_error + nat \<times> nat \<times> jsnum" where
  "backtest_event rnd Date_parse priceSeries tok hoursBefore hoursAfter (ntrades, wins, totalRoi) ev =
     (let buyTs = buyTs_of rnd Date_parse hoursBefore ev;
          sellTs = sellTs_of rnd Date_parse hoursAfter ev
      in case getPrice Date_parse priceSeries tok buyTs of
           Inl e \<Rightarrow> Inl e
         | Inr buyPrice \<Rightarrow>
             (case getPrice Date_parse priceSeries tok sellTs of
                Inl e \<Rightarrow> Inl e
              | Inr sellPrice \<Rightarrow>
                  Inr (case buyPrice of
                         None \<Rightarrow> (ntrades, wins, totalRoi)
                       | Some b \<Rightarrow>
                           (case sellPrice of
                              None \<Rightarrow> (ntrades, wins, totalRoi)
                            | Some s \<Rightarrow>
                                (let roi = roi_of rnd b s
                                 in (ntrades + 1, if jgt roi (Fin 0) then wins + 1 else wins,
                                     jadd rnd totalRoi roi))))))"

text \<open>\<open>events.forEach\<close>: the first exception of the callback ends the loop.\<close>

fun backtest_loop ::
  "(real \<Rightarrow> jsnum) \<Rightarrow> (string \<Rightarrow> jsnum) \<Rightarrow> price_store \<Rightarrow> string \<Rightarrow> jsnum \<Rightarrow> jsnum \<Rightarrow>
   nat \<times> nat \<times> jsnum \<Rightarrow> unlock_event list \<Rightarrow> js_error + nat \<times> nat \<times> jsnum" where
  "backtest_loop rnd Date_parse priceSeries tok hoursBefore hoursAfter acc [] = Inr acc"
| "backtest_loop rnd Date_parse priceSeries tok hoursBefore hoursAfter acc (ev # events) =
     (case backtest_event rnd Date_parse priceSeries tok hoursBefore hoursAfter acc ev of
        Inl e \<Rightarrow> Inl e
      | Inr acc' \<Rightarrow> backtest_loop rnd Date_parse priceSeries tok hoursBefore hoursAfter acc' events)"

text \<open>The two aggregates computed after the loop.\<close>

fun summary :: "(real \<Rightarrow> jsnum) \<Rightarrow> nat \<times> nat \<times> jsnum \<Rightarrow> backtest_result" where
  "summary rnd (ntrades, wins, totalRoi) =
     \<lparr>trades = ntrades,
      winRate = (if ntrades > 0 then jdiv rnd (Fin (real wins)) (Fin (real ntrades)) else Fin 0),
      avgRoi = (if ntrades > 0 then jdiv rnd totalRoi (Fin (real ntrades)) else Fin 0)\<rparr>"

definition backtest ::
  "(real \<Rightarrow> jsnum) \<Rightarrow> (string \<Rightarrow> jsnum) \<Rightarrow> unlock_event list \<Rightarrow> price_store \<Rightarrow> string \<Rightarrow>
   jsnum \<Rightarrow> jsnum \<Rightarrow> js_error + backtest_result" where
  "backtest rnd Date_parse unlocks priceSeries tok hoursBefore hoursAfter =
     (let events = filter (\<lambda>u. token u = tok) unlocks
      in case backtest_loop rnd Date_parse priceSeries tok hoursBefore hoursAfter (0, 0, Fin 0) events of
           Inl e \<Rightarrow> Inl e
         | Inr acc \<Rightarrow> Inr (summary rnd acc))"

section \<open>Values that arrive over HTTP\<close>

text \<open>
  The body of the provider's response and the body of a backtest request are
  whatever \<open>JSON.parse\<close> makes of them, so they are modelled as untyped
  values. An object is the list of its own properties.
\<close>

datatype jsval =
    JUndefined
  | JNull
  | JBool bool
  | JNum jsnum
  | JStr string
  | JArr "jsval list"
  | JObj "(string \<times> jsval) list"

text \<open>
  The built-ins of the language the routes call, as parameters: \<open>JSON.parse\<close>,
  the conversion of a string to a number and of a number to a string.
\<close>

record builtins =
  JSON_parse :: "string \<Rightarrow> js_error + jsval"
  StringToNumber :: "string \<Rightarrow> jsnum"
  NumberToString :: "jsnum \<Rightarrow> string"

text \<open>Truthiness, as \<open>!x\<close>, \<open>x || y\<close> and \<open>x && y\<close> test it.\<close>

fun truthy :: "jsval \<Rightarrow> bool" where
  "truthy JUndefined = False"
| "truthy JNull = False"
| "truthy (JBool b) = b"
| "truthy (JNum n) = (n \<noteq> Fin 0 \<and> n \<noteq> NZero \<and> n \<noteq> NaN)"
| "truthy (JStr s) = (s \<noteq> [])"
| "truthy (JArr xs) = True"
| "truthy (JObj fs) = True"

text \<open>
  Reading a property \<open>v.k\<close>, for the names the code reads (\<open>data\<close>, \<open>coin\<close>,
  \<open>date\<close>, \<open>amount\<close>, \<open>token\<close>, \<open>hoursBefore\<close>, \<open>hoursAfter\<close>), none of
  which a prototype defines: a \<open>TypeError\<close> on \<open>null\<close> and \<open>undefined\<close>,
  the own property of an object, \<open>undefined\<close> otherwise.
\<close>

fun js_get :: "jsval \<Rightarrow> string \<Rightarrow> js_error + jsval" where
  "js_get JUndefined k = Inl TypeError"
| "js_get JNull k = Inl TypeError"
| "js_get (JObj fs) k = Inr (case map_of fs k of None \<Rightarrow> JUndefined | Some v \<Rightarrow> v)"
| "js_get v k = Inr JUndefined"

text \<open>
  The conversion of a value to a string, as a template literal and \<open>Number\<close>
  apply it to a value that \<open>JSON.parse\<close> made. No property of such a value is a
  function. An object with an own property \<open>toString\<close> therefore has no
  method to convert it, and the conversion throws a \<open>TypeError\<close>; any other
  object converts by the inherited method. An array converts by \<open>join\<close>: its
  elements converted and separated by commas, \<open>null\<close> and \<open>undefined\<close>
  counting as the empty string.
\<close>

fun ToString :: "builtins \<Rightarrow> jsval \<Rightarrow> js_error + string"
  and join :: "builtins \<Rightarrow> jsval list \<Rightarrow> js_error + string"
  and join_element :: "builtins \<Rightarrow> jsval \<Rightarrow> js_error + string" where
  "ToString B JUndefined = Inr ''undefined''"
| "ToString B JNull = Inr ''null''"
| "ToString B (JBool b) = Inr (if b then ''true'' else ''false'')"
| "ToString B (JNum n) = Inr (NumberToString B n)"
| "ToString B (JStr s) = Inr s"
| "ToString B (JArr xs) = join B xs"
| "ToString B (JObj fs) =
     (if map_of fs ''toString'' = None then Inr ''[object Object]'' else Inl TypeError)"
| "join B [] = Inr []"
| "join B [x] = join_element B x"
| "join B (x # y # ys) =
     (case join_element B x of
        Inl e \<Rightarrow> Inl e
      | Inr s \<Rightarrow> (case join B (y # ys) of Inl e \<Rightarrow> Inl e | Inr t \<Rightarrow> Inr (s @ '','' @ t)))"
| "join_element B JUndefined = Inr []"
| "join_element B JNull = Inr []"
| "join_element B (JBool b) = ToString B (JBool b)"
| "join_element B (JNum n) = ToString B (JNum n)"
| "join_element B (JStr s) = ToString B (JStr s)"
| "join_element B (JArr xs) = ToString B (JArr xs)"
| "join_element B (JObj fs) = ToString B (JObj fs)"

text \<open>\<open>Number(v)\<close>: an object or an array is converted to a string first.\<close>

fun Number :: "builtins \<Rightarrow> jsval \<Rightarrow> js_error + jsnum" where
  "Number B JUndefined = Inr NaN"
| "Number B JNull = Inr (Fin 0)"
| "Number B (JBool b) = Inr (if b then Fin 1 else Fin 0)"
| "Number B (JNum n) = Inr n"
| "Number B (JStr s) = Inr (StringToNumber B s)"
| "Number B v =
     (case ToString B v of Inl e \<Rightarrow> Inl e | Inr s \<Rightarrow> Inr (StringToNumber B s))"


section \<open>fetchRealUnlocks\<close>

text \<open>
  The callback of \<open>data.map\<close>: the object literal reads \<open>ev.coin\<close>, converts
  \<open>ev.date\<close> to a string inside the template literal, and reads \<open>ev.amount\<close>.
\<close>

definition map_record :: "builtins \<Rightarrow> jsval \<Rightarrow> js_error + jsval" where
  "map_record B ev =
     (case js_get ev ''coin'' of
        Inl e \<Rightarrow> Inl e
      | Inr coin \<Rightarrow>
          (case js_get ev ''date'' of
             Inl e \<Rightarrow> Inl e
           | Inr date \<Rightarrow>
               (case ToString B date of
                  Inl e \<Rightarrow> Inl e
                | Inr d \<Rightarrow>
                    (case js_get ev ''amount'' of
                       Inl e \<Rightarrow> Inl e
                     | Inr amount \<Rightarrow>
                         Inr (JObj
                           [(''token'', coin),
                            (''timestamp'', JStr (d @ ''T00:00:00Z'')),
                            (''amountUsd'', if truthy amount then amount else JNum (Fin 0)),
                            (''shortable'', JBool False)])))))"

text \<open>\<open>xs.map(f)\<close> where \<open>f\<close> may throw: the first exception ends the call.\<close>

fun map_throwing :: "('a \<Rightarrow> js_error + 'b) \<Rightarrow> 'a list \<Rightarrow> js_error + 'b list" where
  "map_throwing f [] = Inr []"
| "map_throwing f (x # xs) =
     (case f x of
        Inl e \<Rightarrow> Inl e
      | Inr y \<Rightarrow> (case map_throwing f xs of Inl e \<Rightarrow> Inl e | Inr ys \<Rightarrow> Inr (y # ys)))"

text \<open>
  The \<open>try\<close> block of the \<open>end\<close> handler. \<open>data.map\<close> is a function only
  when \<open>data\<close> is an array; calling it on any other truthy value is a
  \<open>TypeError\<close>.
\<close>

definition normalize :: "builtins \<Rightarrow> string \<Rightarrow> js_error + jsval list" where
  "normalize B body =
     (case JSON_parse B body of
        Inl e \<Rightarrow> Inl e
      | Inr parsed \<Rightarrow>
          (case js_get parsed ''data'' of
             Inl e \<Rightarrow> Inl e
           | Inr d \<Rightarrow>
               (let data = (if truthy d then d else JArr [])
                in case data of
                     JArr evs \<Rightarrow> map_throwing (map_record B) evs
                   | _ \<Rightarrow> Inl TypeError)))"

text \<open>
  What the call \<open>https.request(options, ...)\<close> leads to: the call itself throws
  (\<open>RequestThrows\<close>), or the request emits \<open>error\<close>, or the response emits
  \<open>end\<close> after the body received. (A request that never ends leaves the
  promise pending; that is outside this model.)

  The call itself throws when a header is not a legal header value: the client
  refuses a value with a control character other than the tab. The header here
  is \<open>Bearer\<close> and the key. A character of the model is a code unit below 256;
  the client refuses every greater code unit as well.
\<close>

datatype net_outcome = RequestThrows | RequestError | ResponseEnd string

definition legal_header_char :: "char \<Rightarrow> bool" where
  "legal_header_char c =
     (let n = (of_char c :: nat) in n = 9 \<or> (32 \<le> n \<and> n \<le> 126) \<or> 128 \<le> n)"

definition request_throws :: "string \<Rightarrow> bool" where
  "request_throws key = list_ex (\<lambda>c. \<not> legal_header_char c) (''Bearer '' @ key)"

text \<open>The outcomes the client allows for a key: it throws exactly on an illegal one.\<close>

definition client_outcome :: "string \<Rightarrow> net_outcome \<Rightarrow> bool" where
  "client_outcome key net = (request_throws key = (net = RequestThrows))"

text \<open>
  How a promise settles. The executor of \<open>fetchRealUnlocks\<close> only ever calls
  \<open>resolve\<close>; an exception thrown inside the executor rejects the promise.
\<close>

datatype 'a promise = Resolved 'a | Rejected js_error

text \<open>
  The value the promise settles to: \<open>Resolved None\<close> is \<open>null\<close>. The key is the
  environment variable, \<open>None\<close> when it is not set. The call of
  \<open>https.request\<close> is not inside any \<open>try\<close>.
\<close>

definition fetchRealUnlocks ::
  "builtins \<Rightarrow> string option \<Rightarrow> net_outcome \<Rightarrow> jsval list option promise" where
  "fetchRealUnlocks B DROPSTAB_API_KEY net =
     (if \<not> (case DROPSTAB_API_KEY of None \<Rightarrow> False | Some k \<Rightarrow> k \<noteq> []) then Resolved None
      else case net of
             RequestThrows \<Rightarrow> Rejected TypeError
           | RequestError \<Rightarrow> Resolved None
           | ResponseEnd body \<Rightarrow>
               (case normalize B body of
                  Inl e \<Rightarrow> Resolved None
                | Inr mapped \<Rightarrow> Resolved (Some mapped)))"

section \<open>The routes\<close>

text \<open>
  \<open>GET /api/unlocks\<close>: the array that is serialised into the response,
  \<open>realData && realData.length > 0 ? realData : unlocks\<close>.
\<close>

definition unlocks_result :: "'a list option \<Rightarrow> 'a list \<Rightarrow> 'a list" where
  "unlocks_result realData unlocks =
     (case realData of
        None \<Rightarrow> unlocks
      | Some xs \<Rightarrow> if length xs > 0 then xs else unlocks)"

text \<open>
  The route answers inside \<open>then\<close>; there is no \<open>catch\<close>, so a rejected
  promise leaves the request without an answer.
\<close>

datatype 'a reply = Replies 'a | NoReply

definition api_unlocks ::
  "builtins \<Rightarrow> string option \<Rightarrow> net_outcome \<Rightarrow> jsval list \<Rightarrow> jsval list reply" where
  "api_unlocks B DROPSTAB_API_KEY net unlocks =
     (case fetchRealUnlocks B DROPSTAB_API_KEY net of
        Resolved realData \<Rightarrow> Replies (unlocks_result realData unlocks)
      | Rejected e \<Rightarrow> NoReply)"

text \<open>
  \<open>GET /api/shortable\<close>: \<open>Array.from(new Set(xs))\<close> keeps the first
  occurrence of every element, in the order of insertion.
\<close>

fun Array_from_Set :: "'a list \<Rightarrow> 'a list \<Rightarrow> 'a list" where
  "Array_from_Set seen [] = seen"
| "Array_from_Set seen (x # xs) =
     (if x \<in> set seen then Array_from_Set seen xs else Array_from_Set (seen @ [x]) xs)"

definition api_shortable :: "unlock_event list \<Rightarrow> string list" where
  "api_shortable unlocks = Array_from_Set [] (map token (filter shortable unlocks))"



section \<open>The per-event rule in the words of the specification\<close>

text \<open>
  The specification states what one event contributes once the two prices are
  looked up: nothing when either is absent, and otherwise one trade with the
  return \<open>(sellPrice - buyPrice) / buyPrice\<close>, which counts as a win when it
  is \<open>> 0\<close>. These definitions are the reference the loop of \<open>backtest\<close> is
  compared with.
\<close>

definition trade_roi :: "(real \<Rightarrow> jsnum) \<Rightarrow> jsnum option \<Rightarrow> jsnum option \<Rightarrow> jsnum option" where
  "trade_roi rnd buyPrice sellPrice =
     (case buyPrice of
        None \<Rightarrow> None
      | Some b \<Rightarrow>
          (case sellPrice of
             None \<Rightarrow> None
           | Some s \<Rightarrow> Some (jdiv rnd (jsub rnd s b) b)))"

definition is_win :: "jsnum option \<Rightarrow> bool" where
  "is_win r = (case r of None \<Rightarrow> False | Some roi \<Rightarrow> jgt roi (Fin 0))"

text \<open>The price a lookup returns, absent also when the lookup throws.\<close>

definition price_at :: "(string \<Rightarrow> jsnum) \<Rightarrow> price_store \<Rightarrow> string \<Rightarrow> jsnum \<Rightarrow> jsnum option" where
  "price_at Date_parse priceSeries tok ts =
     (case getPrice Date_parse priceSeries tok ts of Inl e \<Rightarrow> None | Inr price \<Rightarrow> price)"

text \<open>
  The return of an event: the rule at the prices at \<open>buyTs\<close> and \<open>sellTs\<close>,
  the two instants as the code computes them, \<open>hoursBefore * 3600 * 1000\<close>
  milliseconds before the event and \<open>hoursAfter * 3600 * 1000\<close> after it.
\<close>

definition event_roi ::
  "(real \<Rightarrow> jsnum) \<Rightarrow> (string \<Rightarrow> jsnum) \<Rightarrow> price_store \<Rightarrow> string \<Rightarrow> jsnum \<Rightarrow> jsnum \<Rightarrow>
   unlock_event \<Rightarrow> jsnum option" where
  "event_roi rnd Date_parse priceSeries tok hoursBefore hoursAfter ev =
     trade_roi rnd
       (price_at Date_parse priceSeries tok (buyTs_of rnd Date_parse hoursBefore ev))
       (price_at Date_parse priceSeries tok (sellTs_of rnd Date_parse hoursAfter ev))"

text \<open>
  The tokens on which \<open>getPrice\<close> throws, whatever the instant: the names that
  are not listed and are inherited as a function of a length above 0.
\<close>

definition getPrice_throws :: "price_store \<Rightarrow> string \<Rightarrow> bool" where
  "getPrice_throws priceSeries tok =
     (case priceSeries tok of
        Some series \<Rightarrow> False
      | None \<Rightarrow>
          (case Object_prototype tok of
             Some (InheritedFunction n) \<Rightarrow> 0 < n
           | _ \<Rightarrow> False))"

section \<open>The normalizer in the words of the specification\<close>

text \<open>
  The provider answers with \<open>{data: [{coin, date, amount}, ...]}\<close>. A record of
  that shape, typed, with the amount possibly missing; the object \<open>JSON.parse\<close>
  makes of it; the object an unlock event is; and the event the specification
  assigns to a record.
\<close>

record provider_record =
  coin :: string
  date :: string
  amount :: "jsnum option"

definition record_to_js :: "provider_record \<Rightarrow> jsval" where
  "record_to_js r =
     JObj ([(''coin'', JStr (coin r)), (''date'', JStr (date r))] @
           (case amount r of None \<Rightarrow> [] | Some a \<Rightarrow> [(''amount'', JNum a)]))"

definition unlock_to_js :: "unlock_event \<Rightarrow> jsval" where
  "unlock_to_js u =
     JObj [(''token'', JStr (token u)),
           (''timestamp'', JStr (timestamp u)),
           (''amountUsd'', JNum (amountUsd u)),
           (''shortable'', JBool (shortable u))]"

definition normalize_spec :: "provider_record \<Rightarrow> unlock_event" where
  "normalize_spec r =
     \<lparr>token = coin r,
      timestamp = date r @ ''T00:00:00Z'',
      amountUsd = (case amount r of None \<Rightarrow> Fin 0 | Some a \<Rightarrow> a),
      shortable = False\<rparr>"



section \<open>The bodies the try block throws on\<close>



section \<open>The scenario of the specification\<close>

text \<open>
  The data of the scenario in section 8 of the specification, with \<open>t0\<close> the
  first instant of 2024: two samples for \<open>AAA\<close> one hour apart, and the values
  \<open>Date.parse\<close> has on the two timestamps.
\<close>

definition sample_Date_parse :: "string \<Rightarrow> jsnum" where
  "sample_Date_parse s =
     (if s = ''2024-01-01T00:00:00Z'' then Fin 1704067200000
      else if s = ''2024-01-01T01:00:00Z'' then Fin 1704070800000
      else NaN)"

definition sample_priceSeries :: price_store where
  "sample_priceSeries =
     [''AAA'' \<mapsto>
        [\<lparr>pt_timestamp = ''2024-01-01T00:00:00Z'', pt_price = Fin 10\<rparr>,
         \<lparr>pt_timestamp = ''2024-01-01T01:00:00Z'', pt_price = Fin 12\<rparr>]]"

text \<open>
  The local events of the scenario (one unlock of \<open>AAA\<close> at \<open>t0 + 1h\<close>, and
  an event of another token), and a series whose first price is zero.
\<close>

definition sample_unlocks :: "unlock_event list" where
  "sample_unlocks =
     [\<lparr>token = ''AAA'', timestamp = ''2024-01-01T01:00:00Z'', amountUsd = Fin 1000,
       shortable = True\<rparr>,
      \<lparr>token = ''BBB'', timestamp = ''2024-01-01T00:00:00Z'', amountUsd = Fin 5000,
       shortable = False\<rparr>]"

definition sample_zero_priceSeries :: price_store where
  "sample_zero_priceSeries =
     [''AAA'' \<mapsto>
        [\<lparr>pt_timestamp = ''2024-01-01T00:00:00Z'', pt_price = Fin 0\<rparr>,
         \<lparr>pt_timestamp = ''2024-01-01T01:00:00Z'', pt_price = Fin 12\<rparr>]]"

text \<open>
  Rounding on the results the examples compute. All of them are doubles and
  round to themselves, with one exception: \<open>1/5\<close> is no double, and the double
  nearest to it, the one written \<open>0.2\<close>, is \<open>3602879701896397 / 2^54\<close>.
\<close>

definition double_0_2 :: real where
  "double_0_2 = 3602879701896397 / 18014398509481984"

definition sample_round :: "real \<Rightarrow> jsnum" where
  "sample_round x = (if x = 1 / 5 then Fin double_0_2 else Fin x)"

text \<open>
  The built-ins on the inputs of the examples below: the bodies \<open>JSON.parse\<close>
  accepts and the values it returns for them, and the conversions between
  strings and numbers on the few strings used. Every other body counts as one
  \<open>JSON.parse\<close> throws on.
\<close>

definition sample_builtins :: builtins where
  \<open>sample_builtins =
     \<lparr>JSON_parse = (\<lambda>body.
        if body = ''{"data":[{"coin":"BBB","date":"2024-01-01","amount":5000}]}''
        then Inr (JObj [(''data'', JArr [JObj [(''coin'', JStr ''BBB''),
               (''date'', JStr ''2024-01-01''), (''amount'', JNum (Fin 5000))]])])
        else if body = ''null'' then Inr JNull
        else if body = ''{}'' then Inr (JObj [])
        else if body = ''{"data":[]}'' then Inr (JObj [(''data'', JArr [])])
        else if body = ''{"data":[5]}'' then Inr (JObj [(''data'', JArr [JNum (Fin 5)])])
        else if body = ''{"error":"Unauthorized"}''
        then Inr (JObj [(''error'', JStr ''Unauthorized'')])
        else if body = ''{"token":"AAA","hoursBefore":"1"}''
        then Inr (JObj [(''token'', JStr ''AAA''), (''hoursBefore'', JStr ''1'')])
        else if body = ''{"token":"AAA","hoursBefore":"soon"}''
        then Inr (JObj [(''token'', JStr ''AAA''), (''hoursBefore'', JStr ''soon'')])
        else if body = ''{"token":"AAA","hoursBefore":true}''
        then Inr (JObj [(''token'', JStr ''AAA''), (''hoursBefore'', JBool True)])
        else if body = ''{"token":"AAA","hoursBefore":{"toString":1}}''
        then Inr (JObj [(''token'', JStr ''AAA''),
               (''hoursBefore'', JObj [(''toString'', JNum (Fin 1))])])
        else if body = ''{"token":"","hoursBefore":1}''
        then Inr (JObj [(''token'', JStr ''''), (''hoursBefore'', JNum (Fin 1))])
        else if body = ''{"hoursBefore":1}''
        then Inr (JObj [(''hoursBefore'', JNum (Fin 1))])
        else if body = ''{"token":5}'' then Inr (JObj [(''token'', JNum (Fin 5))])
        else Inl SyntaxError),
      StringToNumber = (\<lambda>s. if s = '''' then Fin 0 else if s = ''1'' then Fin 1 else NaN),
      NumberToString = (\<lambda>n. if n = Fin 1 then ''1'' else if n = Fin 5 then ''5'' else ''NaN'')\<rparr>\<close>

section \<open>Properties of getPrice\<close>

lemma jle_trans: "jle a b \<Longrightarrow> jle b c \<Longrightarrow> jle a c"
  by (cases a; cases b; cases c) (auto simp: jle_def)

lemma jgt_not_jle: "jgt a b \<Longrightarrow> \<not> jle a b"
  by (cases a; cases b) (auto simp: jle_def jgt_def)

lemma jle_Fin [simp]: "jle (Fin x) (Fin y) = (x \<le> y)"
  by (simp add: jle_def)

lemma jgt_Fin [simp]: "jgt (Fin x) (Fin y) = (x > y)"
  by (simp add: jgt_def)

lemma getPrice_loop_takeWhile:
  "getPrice_loop Dp series ts price =
     (case takeWhile (\<lambda>p. jle (Dp (pt_timestamp p)) ts) series of
        [] \<Rightarrow> price
      | q # qs \<Rightarrow> Some (pt_price (last (q # qs))))"
proof (induction series arbitrary: price)
  case Nil
  show ?case by simp
next
  case (Cons p series)
  show ?case
  proof (cases "jle (Dp (pt_timestamp p)) ts")
    case True
    then show ?thesis
      using Cons.IH [of "Some (pt_price p)"]
      by (simp split: list.splits)
  next
    case False
    then show ?thesis by simp
  qed
qed

lemma takeWhile_all_sorted:
  assumes "sorted_wrt jle (map (\<lambda>p. Dp (pt_timestamp p)) series)"
    and "series \<noteq> []"
    and "jle (Dp (pt_timestamp (last series))) ts"
  shows "takeWhile (\<lambda>p. jle (Dp (pt_timestamp p)) ts) series = series"
proof -
  have "jle (Dp (pt_timestamp p)) ts" if "p \<in> set series" for p
  proof (cases "p = last series")
    case True
    then show ?thesis using assms(3) by simp
  next
    case False
    from that obtain i where i: "i < length series" "series ! i = p"
      by (auto simp: in_set_conv_nth)
    have "i \<noteq> length series - 1"
      using False i assms(2) by (auto simp: last_conv_nth)
    then have "i < length series - 1" using i by simp
    then have "jle (map (\<lambda>p. Dp (pt_timestamp p)) series ! i)
                   (map (\<lambda>p. Dp (pt_timestamp p)) series ! (length series - 1))"
      using sorted_wrt_nth_less [OF assms(1), of i "length series - 1"] i by simp
    then have "jle (Dp (pt_timestamp p)) (Dp (pt_timestamp (last series)))"
      using i assms(2) by (simp add: last_conv_nth)
    then show ?thesis using assms(3) jle_trans by blast
  qed
  then show ?thesis by (simp add: takeWhile_eq_all_conv)
qed

lemma getPrice_listed:
  assumes "P tok = Some series"
  shows "getPrice Dp P tok ts =
           Inr (case takeWhile (\<lambda>p. jle (Dp (pt_timestamp p)) ts) series of
                  [] \<Rightarrow> None
                | q # qs \<Rightarrow> Some (pt_price (last (q # qs))))"
  using assms by (simp add: getPrice_def getPrice_loop_takeWhile)

lemma getPrice_unknown:
  assumes "P tok = None" and "Object_prototype tok = None"
  shows "getPrice Dp P tok ts = Inr None"
  using assms by (simp add: getPrice_def)

lemma getPrice_none_qualifies:
  assumes "P tok = Some series" and "\<forall>p \<in> set series. \<not> jle (Dp (pt_timestamp p)) ts"
  shows "getPrice Dp P tok ts = Inr None"
proof -
  have "takeWhile (\<lambda>p. jle (Dp (pt_timestamp p)) ts) series = []"
    using assms(2) by (cases series) auto
  then show ?thesis using assms(1) by (simp add: getPrice_listed)
qed

lemma getPrice_before_first:
  assumes "P tok = Some series" and "series \<noteq> []"
    and "jgt (Dp (pt_timestamp (hd series))) ts"
  shows "getPrice Dp P tok ts = Inr None"
proof -
  have "takeWhile (\<lambda>p. jle (Dp (pt_timestamp p)) ts) series = []"
    using assms(2,3) jgt_not_jle by (cases series) auto
  then show ?thesis using assms(1) by (simp add: getPrice_listed)
qed

lemma getPrice_after_last:
  assumes "P tok = Some series" and "series \<noteq> []"
    and "sorted_wrt jle (map (\<lambda>p. Dp (pt_timestamp p)) series)"
    and "jle (Dp (pt_timestamp (last series))) ts"
  shows "getPrice Dp P tok ts = Inr (Some (pt_price (last series)))"
proof -
  have tw: "takeWhile (\<lambda>p. jle (Dp (pt_timestamp p)) ts) series = series"
    using assms by (intro takeWhile_all_sorted)
  obtain q qs where "series = q # qs"
    using assms(2) by (cases series) auto
  then show ?thesis
    using assms(1) tw by (simp add: getPrice_listed)
qed

text \<open>On which tokens \<open>getPrice\<close> throws does not depend on the instant.\<close>

lemma getPrice_throws_iff: "isl (getPrice Dp P tok ts) = getPrice_throws P tok"
  by (simp add: getPrice_def getPrice_throws_def split: option.splits inherited.splits)

lemma getPrice_throws_TypeError:
  "getPrice_throws P tok \<Longrightarrow> getPrice Dp P tok ts = Inl TypeError"
  by (auto simp: getPrice_def getPrice_throws_def split: option.splits inherited.splits)

lemma getPrice_price_at:
  "\<not> getPrice_throws P tok \<Longrightarrow> getPrice Dp P tok ts = Inr (price_at Dp P tok ts)"
  using getPrice_throws_iff [of Dp P tok ts]
  by (cases "getPrice Dp P tok ts") (simp_all add: price_at_def)

text \<open>
  Claim C1. \<open>getPrice\<close> is documented to return \<open>undefined\<close> when no price is
  found, and the claim has it return absent for every unknown token. For a
  token of the file, and for an unknown token that no object inherits, the code
  does what the claim says (the lemmas above). For the unknown token
  \<open>constructor\<close> it does not: \<open>priceSeries['constructor']\<close> is the function
  \<open>Object\<close>, which passes the guard, and the first pass of the loop throws a
  \<open>TypeError\<close>. An unknown token such as \<open>ZZZ\<close> is absent as claimed.
\<close>

theorem getPrice_inherited_name_throws:
  "sample_priceSeries ''constructor'' = None
   \<and> getPrice sample_Date_parse sample_priceSeries ''constructor'' (Fin 1704070800000)
       = Inl TypeError
   \<and> sample_priceSeries ''ZZZ'' = None
   \<and> getPrice sample_Date_parse sample_priceSeries ''ZZZ'' (Fin 1704070800000) = Inr None"
  by (simp add: getPrice_def sample_priceSeries_def Object_prototype_def)

section \<open>Properties of backtest\<close>

lemma trade_roi_simps [simp]:
  "trade_roi rnd None sellPrice = None"
  "trade_roi rnd buyPrice None = None"
  "trade_roi rnd (Some b) (Some s) = Some (jdiv rnd (jsub rnd s b) b)"
  by (simp_all add: trade_roi_def split: option.splits)

lemma backtest_event_rule:
  "backtest_event rnd Dp P tok hb ha (n, w, r) ev =
     (case getPrice Dp P tok (buyTs_of rnd Dp hb ev) of
        Inl e \<Rightarrow> Inl e
      | Inr buyPrice \<Rightarrow>
          (case getPrice Dp P tok (sellTs_of rnd Dp ha ev) of
             Inl e \<Rightarrow> Inl e
           | Inr sellPrice \<Rightarrow>
               Inr (case trade_roi rnd buyPrice sellPrice of
                      None \<Rightarrow> (n, w, r)
                    | Some roi \<Rightarrow>
                        (n + 1, (if jgt roi (Fin 0) then w + 1 else w), jadd rnd r roi))))"
  by (simp add: roi_of_def Let_def split: sum.splits option.splits)

declare backtest_event.simps [simp del]

lemma backtest_event_throws:
  "getPrice_throws P tok \<Longrightarrow> backtest_event rnd Dp P tok hb ha (n, w, r) ev = Inl TypeError"
  by (simp add: backtest_event_rule getPrice_throws_TypeError)

lemma backtest_event_roi:
  "\<not> getPrice_throws P tok \<Longrightarrow>
   backtest_event rnd Dp P tok hb ha (n, w, r) ev =
     Inr (case event_roi rnd Dp P tok hb ha ev of
            None \<Rightarrow> (n, w, r)
          | Some roi \<Rightarrow> (n + 1, (if jgt roi (Fin 0) then w + 1 else w), jadd rnd r roi))"
  by (simp add: backtest_event_rule getPrice_price_at event_roi_def)

lemma backtest_loop_throws:
  "getPrice_throws P tok \<Longrightarrow> events \<noteq> [] \<Longrightarrow>
   backtest_loop rnd Dp P tok hb ha (n, w, r) events = Inl TypeError"
  by (cases events) (simp_all add: backtest_event_throws)

lemma backtest_loop_counts:
  "\<not> getPrice_throws P tok \<Longrightarrow>
   backtest_loop rnd Dp P tok hb ha (n, w, r) events =
     Inr (n + length (filter (\<lambda>ev. event_roi rnd Dp P tok hb ha ev \<noteq> None) events),
          w + length (filter (\<lambda>ev. is_win (event_roi rnd Dp P tok hb ha ev)) events),
          foldl (jadd rnd) r (List.map_filter (event_roi rnd Dp P tok hb ha) events))"
proof (induction events arbitrary: n w r)
  case Nil
  show ?case by (simp add: List.map_filter_simps)
next
  case (Cons ev events)
  show ?case
  proof (cases "event_roi rnd Dp P tok hb ha ev")
    case None
    then show ?thesis
      using Cons.IH [OF Cons.prems, of n w r] Cons.prems
      by (simp add: backtest_event_roi is_win_def List.map_filter_simps)
  next
    case (Some roi)
    then show ?thesis
      using Cons.IH [OF Cons.prems, of "n + 1" "if jgt roi (Fin 0) then w + 1 else w" "jadd rnd r roi"]
        Cons.prems
      by (simp add: backtest_event_roi is_win_def List.map_filter_simps)
  qed
qed

lemma backtest_loop_cases:
  "backtest_loop rnd Dp P tok hb ha (n, w, r) events =
     (if events \<noteq> [] \<and> getPrice_throws P tok then Inl TypeError
      else Inr (n + length (filter (\<lambda>ev. event_roi rnd Dp P tok hb ha ev \<noteq> None) events),
                w + length (filter (\<lambda>ev. is_win (event_roi rnd Dp P tok hb ha ev)) events),
                foldl (jadd rnd) r (List.map_filter (event_roi rnd Dp P tok hb ha) events)))"
proof (cases "getPrice_throws P tok")
  case True
  then show ?thesis
    by (cases events) (simp_all add: backtest_event_throws List.map_filter_simps)
next
  case False
  then show ?thesis by (simp add: backtest_loop_counts)
qed

lemma backtest_cases:
  "backtest rnd Dp U P tok hb ha =
     (if filter (\<lambda>u. token u = tok) U \<noteq> [] \<and> getPrice_throws P tok then Inl TypeError
      else Inr (summary rnd
        (length (filter (\<lambda>ev. event_roi rnd Dp P tok hb ha ev \<noteq> None)
           (filter (\<lambda>u. token u = tok) U)),
         length (filter (\<lambda>ev. is_win (event_roi rnd Dp P tok hb ha ev))
           (filter (\<lambda>u. token u = tok) U)),
         foldl (jadd rnd) (Fin 0)
           (List.map_filter (event_roi rnd Dp P tok hb ha) (filter (\<lambda>u. token u = tok) U)))))"
  by (simp only: backtest_def Let_def backtest_loop_cases [of rnd Dp P tok hb ha 0 0 "Fin 0"]
      add_0 sum.case if_distrib [of "case_sum Inl (\<lambda>acc. Inr (summary rnd acc))"]
      cong: if_cong)

lemma jgt_zero [simp]: "\<not> jgt (Fin 0) (Fin 0)" "\<not> jgt NZero (Fin 0)"
  by (simp_all add: jgt_def)

text \<open>
  Claim C2. One pass of the loop of \<open>backtest\<close> over an event looks up the price
  at \<open>buyTs = timestamp - hoursBefore * 3600 * 1000\<close> and at
  \<open>sellTs = timestamp + hoursAfter * 3600 * 1000\<close>, in the arithmetic of the
  code, whatever its rounding. It leaves the three counters as they are when
  either price is absent; otherwise it adds one trade, adds
  \<open>roi = (sellPrice - buyPrice) / buyPrice\<close> to the total, and adds one win
  exactly when \<open>roi > 0\<close> (neither zero is \<open>> 0\<close>). Over a list of events the loop
  therefore counts the events that have a return, counts those whose return is a
  win, and sums the returns in order, unless the lookup throws; the number of
  trades \<open>backtest\<close> returns is the number of events of the token that have a
  return.
\<close>

theorem backtest_per_event:
  "backtest_event rnd Dp P tok hb ha (n, w, r) ev =
     (case getPrice Dp P tok (buyTs_of rnd Dp hb ev) of
        Inl e \<Rightarrow> Inl e
      | Inr buyPrice \<Rightarrow>
          (case getPrice Dp P tok (sellTs_of rnd Dp ha ev) of
             Inl e \<Rightarrow> Inl e
           | Inr sellPrice \<Rightarrow>
               Inr (case trade_roi rnd buyPrice sellPrice of
                      None \<Rightarrow> (n, w, r)
                    | Some roi \<Rightarrow>
                        (n + 1, (if jgt roi (Fin 0) then w + 1 else w), jadd rnd r roi))))
   \<and> trade_roi rnd None sellPrice = None
   \<and> trade_roi rnd buyPrice None = None
   \<and> trade_roi rnd (Some b) (Some s) = Some (jdiv rnd (jsub rnd s b) b)
   \<and> buyTs_of rnd Dp hb ev =
       jsub rnd (Dp (timestamp ev)) (jmul rnd (jmul rnd hb (Fin 3600)) (Fin 1000))
   \<and> sellTs_of rnd Dp ha ev =
       jadd rnd (Dp (timestamp ev)) (jmul rnd (jmul rnd ha (Fin 3600)) (Fin 1000))
   \<and> \<not> jgt (Fin 0) (Fin 0) \<and> \<not> jgt NZero (Fin 0)
   \<and> backtest_loop rnd Dp P tok hb ha (n, w, r) events =
       (if events \<noteq> [] \<and> getPrice_throws P tok then Inl TypeError
        else Inr (n + length (filter (\<lambda>ev. event_roi rnd Dp P tok hb ha ev \<noteq> None) events),
                  w + length (filter (\<lambda>ev. is_win (event_roi rnd Dp P tok hb ha ev)) events),
                  foldl (jadd rnd) r (List.map_filter (event_roi rnd Dp P tok hb ha) events)))
   \<and> (case backtest rnd Dp U P tok hb ha of
         Inl e \<Rightarrow> e = TypeError \<and> getPrice_throws P tok
       | Inr result \<Rightarrow>
           trades result =
             length (filter (\<lambda>ev. token ev = tok \<and> event_roi rnd Dp P tok hb ha ev \<noteq> None) U))"
proof -
  have last: "(case backtest rnd Dp U P tok hb ha of
         Inl e \<Rightarrow> e = TypeError \<and> getPrice_throws P tok
       | Inr result \<Rightarrow>
           trades result =
             length (filter (\<lambda>ev. token ev = tok \<and> event_roi rnd Dp P tok hb ha ev \<noteq> None) U))"
    by (simp add: backtest_cases)
  show ?thesis
    using backtest_event_rule [of rnd Dp P tok hb ha n w r ev]
      backtest_loop_cases [of rnd Dp P tok hb ha n w r events] last
    by (simp add: buyTs_of_def sellTs_of_def)
qed

lemma summary_no_trades:
  "trades (summary rnd acc) = 0 \<Longrightarrow>
   summary rnd acc = \<lparr>trades = 0, winRate = Fin 0, avgRoi = Fin 0\<rparr>"
  by (cases acc) simp

lemma backtest_of_no_trades:
  assumes "backtest rnd Dp U P tok hb ha = Inr result" and "trades result = 0"
  shows "result = \<lparr>trades = 0, winRate = Fin 0, avgRoi = Fin 0\<rparr>"
proof -
  obtain acc where "result = summary rnd acc"
    using assms(1) by (auto simp: backtest_def Let_def split: sum.splits)
  then show ?thesis using assms(2) summary_no_trades by blast
qed

lemma backtest_no_events:
  assumes "\<forall>ev \<in> set U. token ev \<noteq> tok"
  shows "backtest rnd Dp U P tok hb ha = Inr \<lparr>trades = 0, winRate = Fin 0, avgRoi = Fin 0\<rparr>"
proof -
  have "filter (\<lambda>u. token u = tok) U = []"
    using assms by (simp add: filter_empty_conv)
  then show ?thesis by (simp add: backtest_def)
qed

lemma backtest_all_skipped:
  assumes "\<forall>ev \<in> set U. token ev = tok \<longrightarrow>
          getPrice Dp P tok (buyTs_of rnd Dp hb ev) = Inr None \<or>
          getPrice Dp P tok (sellTs_of rnd Dp ha ev) = Inr None"
  shows "backtest rnd Dp U P tok hb ha = Inr \<lparr>trades = 0, winRate = Fin 0, avgRoi = Fin 0\<rparr>"
proof (cases "filter (\<lambda>u. token u = tok) U = []")
  case True
  then show ?thesis by (simp add: backtest_def)
next
  case False
  then obtain ev where ev: "ev \<in> set U" "token ev = tok"
    by (auto simp: filter_empty_conv)
  then have "getPrice Dp P tok (buyTs_of rnd Dp hb ev) = Inr None \<or>
          getPrice Dp P tok (sellTs_of rnd Dp ha ev) = Inr None"
    using assms by blast
  then have safe: "\<not> getPrice_throws P tok"
    using getPrice_throws_iff [of Dp P tok "buyTs_of rnd Dp hb ev"]
      getPrice_throws_iff [of Dp P tok "sellTs_of rnd Dp ha ev"]
    by auto
  have none: "event_roi rnd Dp P tok hb ha e = None" if "e \<in> set U" "token e = tok" for e
  proof -
    have "getPrice Dp P tok (buyTs_of rnd Dp hb e) = Inr None \<or>
          getPrice Dp P tok (sellTs_of rnd Dp ha e) = Inr None"
      using assms that by blast
    then show ?thesis
      by (auto simp: event_roi_def price_at_def)
  qed
  have "filter (\<lambda>ev. event_roi rnd Dp P tok hb ha ev \<noteq> None) (filter (\<lambda>u. token u = tok) U) = []"
    using none by (auto simp: filter_empty_conv)
  then have "\<exists>result. backtest rnd Dp U P tok hb ha = Inr result \<and> trades result = 0"
    using safe by (simp add: backtest_cases)
  then show ?thesis using backtest_of_no_trades by blast
qed

text \<open>
  Claim C3. When no trade is counted, \<open>backtest\<close> returns
  \<open>{trades: 0, winRate: 0, avgRoi: 0}\<close>: in general, when no event has the token,
  and when every event of the token lacks the price at \<open>buyTs\<close> or at \<open>sellTs\<close>.
\<close>

theorem backtest_zero_trades:
  "(backtest rnd Dp U P tok hb ha = Inr result \<and> trades result = 0
      \<longrightarrow> result = \<lparr>trades = 0, winRate = Fin 0, avgRoi = Fin 0\<rparr>)
   \<and> ((\<forall>ev \<in> set U. token ev \<noteq> tok)
      \<longrightarrow> backtest rnd Dp U P tok hb ha = Inr \<lparr>trades = 0, winRate = Fin 0, avgRoi = Fin 0\<rparr>)
   \<and> ((\<forall>ev \<in> set U. token ev = tok \<longrightarrow>
          getPrice Dp P tok (buyTs_of rnd Dp hb ev) = Inr None \<or>
          getPrice Dp P tok (sellTs_of rnd Dp ha ev) = Inr None)
      \<longrightarrow> backtest rnd Dp U P tok hb ha = Inr \<lparr>trades = 0, winRate = Fin 0, avgRoi = Fin 0\<rparr>)"
proof (intro conjI impI)
  assume "backtest rnd Dp U P tok hb ha = Inr result \<and> trades result = 0"
  then show "result = \<lparr>trades = 0, winRate = Fin 0, avgRoi = Fin 0\<rparr>"
    using backtest_of_no_trades by blast
next
  assume "\<forall>ev \<in> set U. token ev \<noteq> tok"
  then show "backtest rnd Dp U P tok hb ha = Inr \<lparr>trades = 0, winRate = Fin 0, avgRoi = Fin 0\<rparr>"
    by (rule backtest_no_events)
next
  assume "\<forall>ev \<in> set U. token ev = tok \<longrightarrow>
          getPrice Dp P tok (buyTs_of rnd Dp hb ev) = Inr None \<or>
          getPrice Dp P tok (sellTs_of rnd Dp ha ev) = Inr None"
  then show "backtest rnd Dp U P tok hb ha = Inr \<lparr>trades = 0, winRate = Fin 0, avgRoi = Fin 0\<rparr>"
    by (rule backtest_all_skipped)
qed

lemma sample_hours [simp]:
  "jmul sample_round (jmul sample_round (Fin 1) (Fin 3600)) (Fin 1000) = Fin 3600000"
  "jmul sample_round (jmul sample_round (Fin 2) (Fin 3600)) (Fin 1000) = Fin 7200000"
  "jmul sample_round (jmul sample_round (Fin 0) (Fin 3600)) (Fin 1000) = Fin 0"
  by (simp_all add: jmul_def sample_round_def is_inf_def is_zero_def zero_of_def)

lemma sample_buy_2h:
  "getPrice sample_Date_parse sample_priceSeries ''AAA''
     (buyTs_of sample_round sample_Date_parse (Fin 2)
        \<lparr>token = ''AAA'', timestamp = ''2024-01-01T01:00:00Z'',
         amountUsd = Fin 1000, shortable = True\<rparr>) = Inr None"
  by (simp add: getPrice_def sample_priceSeries_def sample_Date_parse_def buyTs_of_def jsub_def
      jadd_def is_inf_def is_zero_def sample_round_def)

theorem backtest_zero_trades_witness:
  "list_all (\<lambda>ev. token ev \<noteq> ''ZZZ'') sample_unlocks
   \<and> backtest sample_round sample_Date_parse sample_unlocks sample_priceSeries ''ZZZ'' (Fin 1) (Fin 0)
       = Inr \<lparr>trades = 0, winRate = Fin 0, avgRoi = Fin 0\<rparr>
   \<and> getPrice sample_Date_parse sample_priceSeries ''AAA''
       (buyTs_of sample_round sample_Date_parse (Fin 2) (hd sample_unlocks)) = Inr None
   \<and> backtest sample_round sample_Date_parse sample_unlocks sample_priceSeries ''AAA'' (Fin 2) (Fin 0)
       = Inr \<lparr>trades = 0, winRate = Fin 0, avgRoi = Fin 0\<rparr>"
proof -
  let ?zero = "\<lparr>trades = 0, winRate = Fin 0, avgRoi = Fin 0\<rparr>"
  have h1: "\<forall>ev \<in> set sample_unlocks. token ev \<noteq> ''ZZZ''"
    by (simp add: sample_unlocks_def)
  have r1: "backtest sample_round sample_Date_parse sample_unlocks sample_priceSeries ''ZZZ''
              (Fin 1) (Fin 0) = Inr ?zero"
    using backtest_zero_trades [of sample_round sample_Date_parse sample_unlocks sample_priceSeries
        "''ZZZ''" "Fin 1" "Fin 0"] h1
    by blast
  have t1: "backtest sample_round sample_Date_parse sample_unlocks sample_priceSeries ''ZZZ''
              (Fin 1) (Fin 0) = Inr ?zero \<and> trades ?zero = 0"
    using r1 by simp
  have r1': "?zero = \<lparr>trades = 0, winRate = Fin 0, avgRoi = Fin 0\<rparr>"
    using backtest_zero_trades [of sample_round sample_Date_parse sample_unlocks sample_priceSeries
        "''ZZZ''" "Fin 1" "Fin 0" ?zero] t1
    by blast
  have b: "getPrice sample_Date_parse sample_priceSeries ''AAA''
       (buyTs_of sample_round sample_Date_parse (Fin 2) (hd sample_unlocks)) = Inr None"
    using sample_buy_2h by (simp add: sample_unlocks_def)
  have h3: "\<forall>ev \<in> set sample_unlocks. token ev = ''AAA'' \<longrightarrow>
          getPrice sample_Date_parse sample_priceSeries ''AAA''
            (buyTs_of sample_round sample_Date_parse (Fin 2) ev) = Inr None \<or>
          getPrice sample_Date_parse sample_priceSeries ''AAA''
            (sellTs_of sample_round sample_Date_parse (Fin 0) ev) = Inr None"
    using sample_buy_2h by (simp add: sample_unlocks_def)
  have r3: "backtest sample_round sample_Date_parse sample_unlocks sample_priceSeries ''AAA''
              (Fin 2) (Fin 0) = Inr ?zero"
    using backtest_zero_trades [of sample_round sample_Date_parse sample_unlocks sample_priceSeries
        "''AAA''" "Fin 2" "Fin 0"] h3
    by blast
  have h1': "list_all (\<lambda>ev. token ev \<noteq> ''ZZZ'') sample_unlocks"
    using h1 by (simp add: list_all_iff)
  show ?thesis using h1' r1 b r3 by blast
qed

lemma backtest_single_event:
  assumes "filter (\<lambda>u. token u = tok) U = [ev]"
    and "getPrice Dp P tok (buyTs_of rnd Dp hb ev) = Inr (Some b)"
    and "getPrice Dp P tok (sellTs_of rnd Dp ha ev) = Inr (Some s)"
  shows "backtest rnd Dp U P tok hb ha =
           Inr \<lparr>trades = 1,
                winRate = jdiv rnd (Fin (if jgt (roi_of rnd b s) (Fin 0) then 1 else 0)) (Fin 1),
                avgRoi = jdiv rnd (jadd rnd (Fin 0) (roi_of rnd b s)) (Fin 1)\<rparr>"
  using assms by (simp add: backtest_def backtest_event_rule roi_of_def Let_def)

text \<open>
  Claim C4. With the series \<open>[(t0, 10), (t0 + 1h, 12)]\<close> for \<open>AAA\<close> and one
  unlock event of \<open>AAA\<close> at \<open>t0 + 1h\<close>, \<open>backtest("AAA", 1, 0)\<close> returns
  \<open>{trades: 1, winRate: 1, avgRoi: 0.2}\<close>. The instant \<open>t0\<close> and the two timestamp
  strings are arbitrary; \<open>Date.parse\<close> maps them to \<open>t0\<close> and \<open>t0 + 3600000\<close>.
  The rounding is any that leaves the doubles of the computation as they are
  (\<open>1\<close>, \<open>2\<close>, \<open>3600\<close>, \<open>3600000\<close>, \<open>t0\<close>) and takes \<open>1/5\<close> to a double
  \<open>d > 0\<close>: the average return is that double, the number written \<open>0.2\<close>. With
  exact arithmetic it is \<open>1/5\<close> itself.
\<close>

theorem backtest_scenario:
  assumes "Dp sa = Fin t" and "Dp sb = Fin (t + 3600000)"
    and "P ''AAA'' = Some [\<lparr>pt_timestamp = sa, pt_price = Fin 10\<rparr>,
                           \<lparr>pt_timestamp = sb, pt_price = Fin 12\<rparr>]"
    and "filter (\<lambda>u. token u = ''AAA'') U = [ev]"
    and "timestamp ev = sb"
    and "list_all (\<lambda>x. rnd x = Fin x) [1, 2, 3600, 3600000, t, d]"
    and "rnd (1 / 5) = Fin d" and "0 < d"
  shows "backtest rnd Dp U P ''AAA'' (Fin 1) (Fin 0) =
           Inr \<lparr>trades = 1, winRate = Fin 1, avgRoi = Fin d\<rparr>"
proof -
  have r: "rnd 1 = Fin 1" "rnd 2 = Fin 2" "rnd 3600 = Fin 3600" "rnd 3600000 = Fin 3600000"
    "rnd t = Fin t" "rnd d = Fin d"
    using assms(6) by simp_all
  have hours: "jmul rnd (jmul rnd (Fin 1) (Fin 3600)) (Fin 1000) = Fin 3600000"
    by (simp add: jmul_def is_inf_def is_zero_def r)
  have none: "jmul rnd (jmul rnd (Fin 0) (Fin 3600)) (Fin 1000) = Fin 0"
    by (simp add: jmul_def is_inf_def is_zero_def zero_of_def)
  have buyTs: "buyTs_of rnd Dp (Fin 1) ev = Fin t"
    using assms(2,5) r(5)
    by (simp add: buyTs_of_def hours jsub_def jadd_def is_inf_def is_zero_def)
  have sellTs: "sellTs_of rnd Dp (Fin 0) ev = Fin (t + 3600000)"
    using assms(2,5)
    by (simp add: sellTs_of_def none jadd_def is_inf_def is_zero_def zero_of_def)
  have buy: "getPrice Dp P ''AAA'' (buyTs_of rnd Dp (Fin 1) ev) = Inr (Some (Fin 10))"
    using assms(1,2,3) by (simp add: buyTs getPrice_def)
  have sell: "getPrice Dp P ''AAA'' (sellTs_of rnd Dp (Fin 0) ev) = Inr (Some (Fin 12))"
    using assms(1,2,3) by (simp add: sellTs getPrice_def)
  have roi: "roi_of rnd (Fin 10) (Fin 12) = Fin d"
    using r(2) assms(7)
    by (simp add: roi_of_def jsub_def jadd_def jdiv_def is_inf_def is_zero_def)
  have total: "jadd rnd (Fin 0) (Fin d) = Fin d"
    using assms(8) by (simp add: jadd_def is_inf_def is_zero_def)
  have avg: "jdiv rnd (Fin d) (Fin 1) = Fin d"
    using assms(8) r(6) by (simp add: jdiv_def is_inf_def is_zero_def)
  have rate: "jdiv rnd (Fin 1) (Fin 1) = Fin 1"
    using r(1) by (simp add: jdiv_def is_inf_def is_zero_def)
  show ?thesis
    using backtest_single_event [OF assms(4) buy sell] assms(8)
    by (simp add: roi total avg rate)
qed

lemma sample_round_exact:
  "list_all (\<lambda>x. sample_round x = Fin x) [1, 2, 3600, 3600000, 1704067200000, double_0_2]"
  "sample_round (1 / 5) = Fin double_0_2" "0 < double_0_2"
  by (simp_all add: sample_round_def double_0_2_def)

theorem backtest_scenario_witness:
  "sample_Date_parse ''2024-01-01T00:00:00Z'' = Fin 1704067200000
   \<and> sample_Date_parse ''2024-01-01T01:00:00Z'' = Fin (1704067200000 + 3600000)
   \<and> sample_priceSeries ''AAA'' =
        Some [\<lparr>pt_timestamp = ''2024-01-01T00:00:00Z'', pt_price = Fin 10\<rparr>,
              \<lparr>pt_timestamp = ''2024-01-01T01:00:00Z'', pt_price = Fin 12\<rparr>]
   \<and> filter (\<lambda>u. token u = ''AAA'') sample_unlocks = [hd sample_unlocks]
   \<and> timestamp (hd sample_unlocks) = ''2024-01-01T01:00:00Z''
   \<and> list_all (\<lambda>x. sample_round x = Fin x) [1, 2, 3600, 3600000, 1704067200000, double_0_2]
   \<and> sample_round (1 / 5) = Fin double_0_2 \<and> 0 < double_0_2
   \<and> backtest sample_round sample_Date_parse sample_unlocks sample_priceSeries ''AAA''
        (Fin 1) (Fin 0) =
        Inr \<lparr>trades = 1, winRate = Fin 1, avgRoi = Fin double_0_2\<rparr>
   \<and> backtest Fin sample_Date_parse sample_unlocks sample_priceSeries ''AAA'' (Fin 1) (Fin 0) =
        Inr \<lparr>trades = 1, winRate = Fin 1, avgRoi = Fin (1 / 5)\<rparr>"
proof -
  have h1: "sample_Date_parse ''2024-01-01T00:00:00Z'' = Fin 1704067200000"
    by (simp add: sample_Date_parse_def)
  have h2: "sample_Date_parse ''2024-01-01T01:00:00Z'' = Fin (1704067200000 + 3600000)"
    by (simp add: sample_Date_parse_def)
  have h3: "sample_priceSeries ''AAA'' =
        Some [\<lparr>pt_timestamp = ''2024-01-01T00:00:00Z'', pt_price = Fin 10\<rparr>,
              \<lparr>pt_timestamp = ''2024-01-01T01:00:00Z'', pt_price = Fin 12\<rparr>]"
    by (simp add: sample_priceSeries_def)
  have h4: "filter (\<lambda>u. token u = ''AAA'') sample_unlocks = [hd sample_unlocks]"
    by (simp add: sample_unlocks_def)
  have h5: "timestamp (hd sample_unlocks) = ''2024-01-01T01:00:00Z''"
    by (simp add: sample_unlocks_def)
  have r1: "backtest sample_round sample_Date_parse sample_unlocks sample_priceSeries ''AAA''
        (Fin 1) (Fin 0) = Inr \<lparr>trades = 1, winRate = Fin 1, avgRoi = Fin double_0_2\<rparr>"
    using backtest_scenario [of sample_Date_parse "''2024-01-01T00:00:00Z''" 1704067200000
        "''2024-01-01T01:00:00Z''" sample_priceSeries sample_unlocks "hd sample_unlocks"
        sample_round double_0_2]
      h1 h2 h3 h4 h5 sample_round_exact
    by blast
  have e: "list_all (\<lambda>x. Fin x = Fin x) [1, 2, 3600, 3600000, 1704067200000, 1 / 5]"
    "Fin (1 / 5) = Fin (1 / 5)" "(0::real) < 1 / 5"
    by simp_all
  have r2: "backtest Fin sample_Date_parse sample_unlocks sample_priceSeries ''AAA''
        (Fin 1) (Fin 0) = Inr \<lparr>trades = 1, winRate = Fin 1, avgRoi = Fin (1 / 5)\<rparr>"
    using backtest_scenario [of sample_Date_parse "''2024-01-01T00:00:00Z''" 1704067200000
        "''2024-01-01T01:00:00Z''" sample_priceSeries sample_unlocks "hd sample_unlocks"
        Fin "1 / 5"]
      h1 h2 h3 h4 h5 e
    by blast
  show ?thesis
    using h1 h2 h3 h4 h5 sample_round_exact r1 r2 by blast
qed

lemma nonfinite_jadd_left: "\<not> is_finite a \<Longrightarrow> \<not> is_finite (jadd rnd a b)"
  by (cases a; cases b) (auto simp: jadd_def is_inf_def is_zero_def)

lemma nonfinite_jadd_right: "\<not> is_finite b \<Longrightarrow> \<not> is_finite (jadd rnd a b)"
  by (cases a; cases b) (auto simp: jadd_def is_inf_def is_zero_def)

lemma foldl_jadd_nonfinite_start:
  "\<not> is_finite a \<Longrightarrow> \<not> is_finite (foldl (jadd rnd) a xs)"
  by (induction xs arbitrary: a) (auto simp: nonfinite_jadd_left)

lemma foldl_jadd_nonfinite:
  "x \<in> set xs \<Longrightarrow> \<not> is_finite x \<Longrightarrow> \<not> is_finite (foldl (jadd rnd) a xs)"
proof (induction xs arbitrary: a)
  case Nil
  then show ?case by simp
next
  case (Cons y ys)
  show ?case
  proof (cases "x = y")
    case True
    then show ?thesis
      using Cons.prems(2) by (simp add: foldl_jadd_nonfinite_start nonfinite_jadd_right)
  next
    case False
    then have "x \<in> set ys" using Cons.prems(1) by simp
    then show ?thesis using Cons.IH Cons.prems(2) by simp
  qed
qed

lemma nonfinite_jdiv_count:
  "\<not> is_finite a \<Longrightarrow> 0 < n \<Longrightarrow> \<not> is_finite (jdiv rnd a (Fin (real n)))"
  by (cases a) (auto simp: jdiv_def is_inf_def is_zero_def inf_of_def)

lemma roi_zero_buy_nonfinite: "is_zero z \<Longrightarrow> \<not> is_finite (roi_of rnd z s)"
  by (cases s)
    (auto simp: roi_of_def jsub_def jadd_def jdiv_def is_inf_def is_zero_def inf_of_def zero_of_def)

lemma set_map_filter: "set (List.map_filter f xs) = {y. \<exists>x \<in> set xs. f x = Some y}"
  by (induction xs) (auto simp: List.map_filter_simps split: option.splits)

text \<open>
  Claim C5. An event of the token whose buy price is exactly zero (of either
  sign) and whose sell price is present is counted as a trade; its return, a
  division by zero, is not finite, and neither is the total it is added to, nor
  the average return \<open>backtest\<close> reports. No event is skipped for it and nothing
  is thrown.
\<close>

theorem backtest_zero_buy_price:
  assumes "ev \<in> set U" and "token ev = tok"
    and "getPrice Dp P tok (buyTs_of rnd Dp hb ev) = Inr (Some z)" and "is_zero z"
    and "getPrice Dp P tok (sellTs_of rnd Dp ha ev) = Inr (Some s)"
  shows "backtest_event rnd Dp P tok hb ha (n, w, r) ev =
           Inr (n + 1, (if jgt (roi_of rnd z s) (Fin 0) then w + 1 else w),
                jadd rnd r (roi_of rnd z s))
         \<and> \<not> is_finite (roi_of rnd z s)
         \<and> \<not> is_finite (jadd rnd r (roi_of rnd z s))
         \<and> (\<exists>result. backtest rnd Dp U P tok hb ha = Inr result
               \<and> 0 < trades result \<and> \<not> is_finite (avgRoi result))"
proof -
  let ?events = "filter (\<lambda>u. token u = tok) U"
  let ?rois = "List.map_filter (event_roi rnd Dp P tok hb ha) ?events"
  let ?n = "length (filter (\<lambda>ev. event_roi rnd Dp P tok hb ha ev \<noteq> None) ?events)"
  have step: "backtest_event rnd Dp P tok hb ha (n, w, r) ev =
           Inr (n + 1, (if jgt (roi_of rnd z s) (Fin 0) then w + 1 else w),
                jadd rnd r (roi_of rnd z s))"
    using assms(3,5) by (simp add: backtest_event_rule roi_of_def)
  have safe: "\<not> getPrice_throws P tok"
    using getPrice_throws_iff [of Dp P tok "buyTs_of rnd Dp hb ev"] assms(3) by simp
  have roi: "event_roi rnd Dp P tok hb ha ev = Some (roi_of rnd z s)"
    using assms(3,5) by (simp add: event_roi_def price_at_def roi_of_def)
  have ev: "ev \<in> set ?events" using assms(1,2) by simp
  then have mem: "roi_of rnd z s \<in> set ?rois"
    using roi by (auto simp: set_map_filter)
  have total: "\<not> is_finite (foldl (jadd rnd) (Fin 0) ?rois)"
    using mem roi_zero_buy_nonfinite [OF assms(4)] by (rule foldl_jadd_nonfinite)
  have "ev \<in> set (filter (\<lambda>ev. event_roi rnd Dp P tok hb ha ev \<noteq> None) ?events)"
    using ev roi by simp
  then have pos: "0 < ?n"
    by (simp only: length_pos_if_in_set)
  have res: "backtest rnd Dp U P tok hb ha =
      Inr \<lparr>trades = ?n,
           winRate = jdiv rnd (Fin (real (length (filter (\<lambda>ev. is_win (event_roi rnd Dp P tok hb ha ev))
                       ?events)))) (Fin (real ?n)),
           avgRoi = jdiv rnd (foldl (jadd rnd) (Fin 0) ?rois) (Fin (real ?n))\<rparr>"
    using safe pos by (simp add: backtest_cases)
  have "\<not> is_finite (jdiv rnd (foldl (jadd rnd) (Fin 0) ?rois) (Fin (real ?n)))"
    using total pos by (rule nonfinite_jdiv_count)
  then have "\<exists>result. backtest rnd Dp U P tok hb ha = Inr result
               \<and> 0 < trades result \<and> \<not> is_finite (avgRoi result)"
    using res pos by simp
  then show ?thesis
    using step roi_zero_buy_nonfinite [OF assms(4)] nonfinite_jadd_right by simp
qed

theorem backtest_zero_buy_price_witness:
  "hd sample_unlocks \<in> set sample_unlocks
   \<and> token (hd sample_unlocks) = ''AAA''
   \<and> getPrice sample_Date_parse sample_zero_priceSeries ''AAA''
       (buyTs_of sample_round sample_Date_parse (Fin 1) (hd sample_unlocks)) = Inr (Some (Fin 0))
   \<and> is_zero (Fin 0)
   \<and> getPrice sample_Date_parse sample_zero_priceSeries ''AAA''
       (sellTs_of sample_round sample_Date_parse (Fin 0) (hd sample_unlocks)) = Inr (Some (Fin 12))
   \<and> (\<exists>result. backtest sample_round sample_Date_parse sample_unlocks sample_zero_priceSeries ''AAA''
         (Fin 1) (Fin 0) = Inr result \<and> 0 < trades result \<and> \<not> is_finite (avgRoi result))
   \<and> backtest sample_round sample_Date_parse sample_unlocks sample_zero_priceSeries ''AAA''
       (Fin 1) (Fin 0) = Inr \<lparr>trades = 1, winRate = Fin 1, avgRoi = PInf\<rparr>"
proof -
  have h1: "hd sample_unlocks \<in> set sample_unlocks"
    by (simp add: sample_unlocks_def)
  have h2: "token (hd sample_unlocks) = ''AAA''"
    by (simp add: sample_unlocks_def)
  have h3: "getPrice sample_Date_parse sample_zero_priceSeries ''AAA''
       (buyTs_of sample_round sample_Date_parse (Fin 1) (hd sample_unlocks)) = Inr (Some (Fin 0))"
    by (simp add: sample_unlocks_def getPrice_def sample_zero_priceSeries_def
        sample_Date_parse_def buyTs_of_def jsub_def jadd_def is_inf_def is_zero_def sample_round_def)
  have hz: "is_zero (Fin 0)"
    by (simp add: is_zero_def)
  have h4: "getPrice sample_Date_parse sample_zero_priceSeries ''AAA''
       (sellTs_of sample_round sample_Date_parse (Fin 0) (hd sample_unlocks)) = Inr (Some (Fin 12))"
    by (simp add: sample_unlocks_def getPrice_def sample_zero_priceSeries_def
        sample_Date_parse_def sellTs_of_def jadd_def is_inf_def is_zero_def)
  have single: "filter (\<lambda>u. token u = ''AAA'') sample_unlocks = [hd sample_unlocks]"
    by (simp add: sample_unlocks_def)
  have val: "backtest sample_round sample_Date_parse sample_unlocks sample_zero_priceSeries ''AAA''
       (Fin 1) (Fin 0) = Inr \<lparr>trades = 1, winRate = Fin 1, avgRoi = PInf\<rparr>"
    using backtest_single_event [OF single h3 h4]
    by (simp add: roi_of_def jsub_def jadd_def jdiv_def is_inf_def is_zero_def inf_of_def
        jgt_def sample_round_def)
  have t: "\<exists>result. backtest sample_round sample_Date_parse sample_unlocks sample_zero_priceSeries ''AAA''
         (Fin 1) (Fin 0) = Inr result \<and> 0 < trades result \<and> \<not> is_finite (avgRoi result)"
    using backtest_zero_buy_price [of "hd sample_unlocks" sample_unlocks "''AAA''"
        sample_Date_parse sample_zero_priceSeries sample_round "Fin 1" "Fin 0" "Fin 0" "Fin 12"
        0 0 "Fin 0"]
      h1 h2 h3 hz h4
    by blast
  show ?thesis
    using h1 h2 h3 hz h4 t val by blast
qed

section \<open>Properties of fetchRealUnlocks\<close>




lemma js_get_record_to_js:
  "js_get (record_to_js r) ''coin'' = Inr (JStr (coin r))"
  "js_get (record_to_js r) ''date'' = Inr (JStr (date r))"
  "js_get (record_to_js r) ''amount'' = Inr (case amount r of None \<Rightarrow> JUndefined | Some a \<Rightarrow> JNum a)"
  by (simp_all add: record_to_js_def split: option.splits)

lemma map_record_wellformed:
  assumes "js_get ev ''coin'' = Inr c" and "js_get ev ''date'' = Inr (JStr d)"
    and "js_get ev ''amount'' = Inr a"
    and "a = JUndefined \<or> (\<exists>n. a = JNum n \<and> n \<noteq> NaN)"
  shows "map_record B ev =
           Inr (JObj [(''token'', c),
                      (''timestamp'', JStr (d @ ''T00:00:00Z'')),
                      (''amountUsd'',
                         if a = JUndefined \<or> a = JNum NZero then JNum (Fin 0) else a),
                      (''shortable'', JBool False)])"
  using assms by (auto simp: map_record_def)

lemma map_record_record_to_js:
  assumes "amount r \<noteq> Some NaN" and "amount r \<noteq> Some NZero"
  shows "map_record B (record_to_js r) = Inr (unlock_to_js (normalize_spec r))"
proof (cases "amount r")
  case None
  then show ?thesis
    using map_record_wellformed [of "record_to_js r" "JStr (coin r)" "date r" JUndefined B]
    by (simp add: js_get_record_to_js unlock_to_js_def normalize_spec_def)
next
  case (Some n)
  then have "n \<noteq> NaN" "n \<noteq> NZero" using assms by simp_all
  then show ?thesis
    using Some map_record_wellformed [of "record_to_js r" "JStr (coin r)" "date r" "JNum n" B]
    by (simp add: js_get_record_to_js unlock_to_js_def normalize_spec_def)
qed

lemma normalize_records:
  assumes "JSON_parse B body = Inr parsed"
    and "js_get parsed ''data'' = Inr (JArr (map record_to_js rs))"
    and "\<forall>r \<in> set rs. amount r \<noteq> Some NaN \<and> amount r \<noteq> Some NZero"
  shows "normalize B body = Inr (map (\<lambda>r. unlock_to_js (normalize_spec r)) rs)"
proof -
  have "map_throwing (map_record B) (map record_to_js rs) =
          Inr (map (\<lambda>r. unlock_to_js (normalize_spec r)) rs)"
    using assms(3) by (induction rs) (simp_all add: map_record_record_to_js)
  then show ?thesis
    using assms(1,2) by (simp add: normalize_def)
qed

text \<open>
  Claim C6. The normalizer maps a provider record to one event: the token is the
  record's \<open>coin\<close>, the timestamp is its \<open>date\<close> followed by \<open>T00:00:00Z\<close>, the
  amount is the record's \<open>amount\<close>, or 0 when the record has none, and
  \<open>shortable\<close> is false. This holds for any object with a string \<open>date\<close> and an
  amount that is missing or a number (JSON has no NaN); an amount of negative
  zero is stored as 0, the zero it equals. A response whose \<open>data\<close> is a list
  of such records, none with an amount of negative zero, resolves to the list of
  their events, one per record and in order.
\<close>

theorem normalizer_maps_records:
  "(js_get ev ''coin'' = Inr c \<and> js_get ev ''date'' = Inr (JStr d)
      \<and> js_get ev ''amount'' = Inr a
      \<and> (a = JUndefined \<or> (\<exists>n. a = JNum n \<and> n \<noteq> NaN))
     \<longrightarrow> map_record B ev =
           Inr (JObj [(''token'', c),
                      (''timestamp'', JStr (d @ ''T00:00:00Z'')),
                      (''amountUsd'',
                         if a = JUndefined \<or> a = JNum NZero then JNum (Fin 0) else a),
                      (''shortable'', JBool False)]))
   \<and> (k \<noteq> [] \<and> JSON_parse B body = Inr parsed
      \<and> js_get parsed ''data'' = Inr (JArr (map record_to_js rs))
      \<and> (\<forall>r \<in> set rs. amount r \<noteq> Some NaN \<and> amount r \<noteq> Some NZero)
     \<longrightarrow> fetchRealUnlocks B (Some k) (ResponseEnd body) =
           Resolved (Some (map (\<lambda>r. unlock_to_js (normalize_spec r)) rs)))"
proof (intro conjI impI)
  assume "js_get ev ''coin'' = Inr c \<and> js_get ev ''date'' = Inr (JStr d)
      \<and> js_get ev ''amount'' = Inr a
      \<and> (a = JUndefined \<or> (\<exists>n. a = JNum n \<and> n \<noteq> NaN))"
  then show "map_record B ev =
           Inr (JObj [(''token'', c),
                      (''timestamp'', JStr (d @ ''T00:00:00Z'')),
                      (''amountUsd'',
                         if a = JUndefined \<or> a = JNum NZero then JNum (Fin 0) else a),
                      (''shortable'', JBool False)])"
    using map_record_wellformed [of ev c d a B] by blast
next
  assume h: "k \<noteq> [] \<and> JSON_parse B body = Inr parsed
      \<and> js_get parsed ''data'' = Inr (JArr (map record_to_js rs))
      \<and> (\<forall>r \<in> set rs. amount r \<noteq> Some NaN \<and> amount r \<noteq> Some NZero)"
  then have "normalize B body = Inr (map (\<lambda>r. unlock_to_js (normalize_spec r)) rs)"
    using normalize_records [of B body parsed rs] by blast
  then show "fetchRealUnlocks B (Some k) (ResponseEnd body) =
           Resolved (Some (map (\<lambda>r. unlock_to_js (normalize_spec r)) rs))"
    using h by (simp add: fetchRealUnlocks_def)
qed

theorem normalizer_maps_records_witness:
  \<open>map_record sample_builtins
       (JObj [(''coin'', JStr ''BBB''), (''date'', JStr ''2024-01-01''),
              (''amount'', JNum (Fin 5000))]) =
     Inr (JObj [(''token'', JStr ''BBB''),
                (''timestamp'', JStr ''2024-01-01T00:00:00Z''),
                (''amountUsd'', JNum (Fin 5000)),
                (''shortable'', JBool False)])
   \<and> map_record sample_builtins (JObj [(''coin'', JStr ''BBB''), (''date'', JStr ''2024-01-01'')]) =
     Inr (JObj [(''token'', JStr ''BBB''),
                (''timestamp'', JStr ''2024-01-01T00:00:00Z''),
                (''amountUsd'', JNum (Fin 0)),
                (''shortable'', JBool False)])
   \<and> fetchRealUnlocks sample_builtins (Some ''key'')
       (ResponseEnd ''{"data":[{"coin":"BBB","date":"2024-01-01","amount":5000}]}'') =
     Resolved (Some [JObj [(''token'', JStr ''BBB''),
                 (''timestamp'', JStr ''2024-01-01T00:00:00Z''),
                 (''amountUsd'', JNum (Fin 5000)),
                 (''shortable'', JBool False)]])\<close>
proof -
  let ?ev = "JObj [(''coin'', JStr ''BBB''), (''date'', JStr ''2024-01-01''),
                   (''amount'', JNum (Fin 5000))]"
  let ?bare = "JObj [(''coin'', JStr ''BBB''), (''date'', JStr ''2024-01-01'')]"
  let ?r = "\<lparr>coin = ''BBB'', date = ''2024-01-01'', amount = Some (Fin 5000)\<rparr>"
  let ?body = \<open>''{"data":[{"coin":"BBB","date":"2024-01-01","amount":5000}]}''\<close>
  have g: "js_get ?ev ''coin'' = Inr (JStr ''BBB'') \<and> js_get ?ev ''date'' = Inr (JStr ''2024-01-01'')
      \<and> js_get ?ev ''amount'' = Inr (JNum (Fin 5000))
      \<and> (JNum (Fin 5000) = JUndefined \<or> (\<exists>n. JNum (Fin 5000) = JNum n \<and> n \<noteq> NaN))"
    by simp
  have r1: "map_record sample_builtins ?ev =
     Inr (JObj [(''token'', JStr ''BBB''),
                (''timestamp'', JStr (''2024-01-01'' @ ''T00:00:00Z'')),
                (''amountUsd'',
                   if JNum (Fin 5000) = JUndefined \<or> JNum (Fin 5000) = JNum NZero
                   then JNum (Fin 0) else JNum (Fin 5000)),
                (''shortable'', JBool False)])"
    using normalizer_maps_records [of ?ev "JStr ''BBB''" "''2024-01-01''" "JNum (Fin 5000)"
        sample_builtins] g
    by blast
  have g0: "js_get ?bare ''coin'' = Inr (JStr ''BBB'') \<and> js_get ?bare ''date'' = Inr (JStr ''2024-01-01'')
      \<and> js_get ?bare ''amount'' = Inr JUndefined
      \<and> (JUndefined = JUndefined \<or> (\<exists>n. JUndefined = JNum n \<and> n \<noteq> NaN))"
    by simp
  have r2: "map_record sample_builtins ?bare =
     Inr (JObj [(''token'', JStr ''BBB''),
                (''timestamp'', JStr (''2024-01-01'' @ ''T00:00:00Z'')),
                (''amountUsd'',
                   if JUndefined = JUndefined \<or> JUndefined = JNum NZero
                   then JNum (Fin 0) else JUndefined),
                (''shortable'', JBool False)])"
    using normalizer_maps_records [of ?bare "JStr ''BBB''" "''2024-01-01''" JUndefined
        sample_builtins] g0
    by blast
  have p: "''key'' \<noteq> [] \<and> JSON_parse sample_builtins ?body = Inr (JObj [(''data'', JArr [?ev])])
      \<and> js_get (JObj [(''data'', JArr [?ev])]) ''data'' = Inr (JArr (map record_to_js [?r]))
      \<and> (\<forall>r \<in> set [?r]. amount r \<noteq> Some NaN \<and> amount r \<noteq> Some NZero)"
    by (simp add: sample_builtins_def record_to_js_def)
  have r3: "fetchRealUnlocks sample_builtins (Some ''key'') (ResponseEnd ?body) =
           Resolved (Some (map (\<lambda>r. unlock_to_js (normalize_spec r)) [?r]))"
    using normalizer_maps_records [where k = "''key''" and B = sample_builtins and body = ?body
        and parsed = "JObj [(''data'', JArr [?ev])]" and rs = "[?r]"] p
    by blast
  show ?thesis
    using r1 r2 r3 by (simp add: unlock_to_js_def normalize_spec_def)
qed

text \<open>
  The promise is rejected when the call of \<open>https.request\<close> throws, as the
  client does for a key that is no legal header value, for example one with a
  line feed in it.
\<close>

lemma fetchRealUnlocks_illegal_key_rejects:
  assumes "k \<noteq> []" and "request_throws k" and "client_outcome k net"
  shows "fetchRealUnlocks B (Some k) net = Rejected TypeError"
proof -
  have "net = RequestThrows"
    using assms(2,3) by (simp add: client_outcome_def)
  then show ?thesis
    using assms(1) by (simp add: fetchRealUnlocks_def)
qed

lemma line_feed_key_rejects:
  "request_throws [CHR ''a'', CHR 0x0A, CHR ''b'']
   \<and> fetchRealUnlocks B (Some [CHR ''a'', CHR 0x0A, CHR ''b'']) RequestThrows = Rejected TypeError"
  by (simp add: request_throws_def legal_header_char_def fetchRealUnlocks_def)




section \<open>Properties of the routes\<close>

lemma unlocks_result_cases:
  "unlocks_result realData unlocks =
     (case realData of None \<Rightarrow> unlocks | Some [] \<Rightarrow> unlocks | Some (x # xs) \<Rightarrow> x # xs)"
  by (simp add: unlocks_result_def split: option.splits list.splits)

text \<open>
  Claim C8. The body of the response of \<open>GET /api/unlocks\<close> is the local
  collection, unchanged, when \<open>fetchRealUnlocks\<close> resolves to \<open>null\<close> or to an
  empty list, and is exactly the list it resolves to otherwise.
\<close>

theorem api_unlocks_fallback:
  "(fetchRealUnlocks B key net = Resolved None \<or> fetchRealUnlocks B key net = Resolved (Some [])
      \<longrightarrow> api_unlocks B key net unlocks = Replies unlocks)
   \<and> (fetchRealUnlocks B key net = Resolved (Some mapped) \<and> mapped \<noteq> []
      \<longrightarrow> api_unlocks B key net unlocks = Replies mapped)"
  by (auto simp: api_unlocks_def unlocks_result_cases split: list.splits)

theorem api_unlocks_fallback_witness:
  \<open>fetchRealUnlocks sample_builtins None (ResponseEnd ''{"data":[]}'') = Resolved None
   \<and> api_unlocks sample_builtins None (ResponseEnd ''{"data":[]}'')
        (map unlock_to_js sample_unlocks) = Replies (map unlock_to_js sample_unlocks)
   \<and> fetchRealUnlocks sample_builtins (Some ''key'') (ResponseEnd ''{"data":[]}'')
        = Resolved (Some [])
   \<and> api_unlocks sample_builtins (Some ''key'') (ResponseEnd ''{"data":[]}'')
        (map unlock_to_js sample_unlocks) = Replies (map unlock_to_js sample_unlocks)
   \<and> api_unlocks sample_builtins (Some ''key'')
        (ResponseEnd ''{"data":[{"coin":"BBB","date":"2024-01-01","amount":5000}]}'')
        (map unlock_to_js sample_unlocks) =
       Replies [JObj [(''token'', JStr ''BBB''),
              (''timestamp'', JStr ''2024-01-01T00:00:00Z''),
              (''amountUsd'', JNum (Fin 5000)),
              (''shortable'', JBool False)]]\<close>
proof -
  let ?empty = \<open>''{"data":[]}''\<close>
  let ?body = \<open>''{"data":[{"coin":"BBB","date":"2024-01-01","amount":5000}]}''\<close>
  let ?local = "map unlock_to_js sample_unlocks"
  let ?mapped = "[JObj [(''token'', JStr ''BBB''),
              (''timestamp'', JStr ''2024-01-01T00:00:00Z''),
              (''amountUsd'', JNum (Fin 5000)),
              (''shortable'', JBool False)]]"
  have f1: "fetchRealUnlocks sample_builtins None (ResponseEnd ?empty) = Resolved None"
    by (simp add: fetchRealUnlocks_def)
  have f2: "fetchRealUnlocks sample_builtins (Some ''key'') (ResponseEnd ?empty) = Resolved (Some [])"
    by (simp add: fetchRealUnlocks_def normalize_def sample_builtins_def)
  have f3: "fetchRealUnlocks sample_builtins (Some ''key'') (ResponseEnd ?body) = Resolved (Some ?mapped)
      \<and> ?mapped \<noteq> []"
    by (simp add: fetchRealUnlocks_def normalize_def sample_builtins_def map_record_def)
  have r1: "api_unlocks sample_builtins None (ResponseEnd ?empty) ?local = Replies ?local"
    using api_unlocks_fallback [of sample_builtins None "ResponseEnd ?empty" ?local] f1
    by blast
  have r2: "api_unlocks sample_builtins (Some ''key'') (ResponseEnd ?empty) ?local = Replies ?local"
    using api_unlocks_fallback [of sample_builtins "Some ''key''" "ResponseEnd ?empty" ?local] f2
    by blast
  have r3: "api_unlocks sample_builtins (Some ''key'') (ResponseEnd ?body) ?local = Replies ?mapped"
    using api_unlocks_fallback [of sample_builtins "Some ''key''" "ResponseEnd ?body" ?local ?mapped] f3
    by blast
  show ?thesis using f1 f2 r1 r2 r3 by blast
qed








lemma Number_own_toString:
  "map_of fs ''toString'' = Some v \<Longrightarrow> Number B (JObj fs) = Inl TypeError"
  by simp






lemma set_Array_from_Set: "set (Array_from_Set seen xs) = set seen \<union> set xs"
  by (induction xs arbitrary: seen) auto

lemma distinct_Array_from_Set: "distinct seen \<Longrightarrow> distinct (Array_from_Set seen xs)"
  by (induction xs arbitrary: seen) auto

text \<open>
  Claim C10. The list \<open>GET /api/shortable\<close> returns holds, once each, the
  tokens that have at least one event with \<open>shortable\<close> true; a token whose
  events all have \<open>shortable\<close> false is not in it.
\<close>

theorem api_shortable_tokens:
  "set (api_shortable U) = {token u | u. u \<in> set U \<and> shortable u}
   \<and> distinct (api_shortable U)
   \<and> ((\<forall>u \<in> set U. token u = tok \<longrightarrow> \<not> shortable u) \<longrightarrow> tok \<notin> set (api_shortable U))"
proof (intro conjI impI)
  show s: "set (api_shortable U) = {token u | u. u \<in> set U \<and> shortable u}"
    by (auto simp: api_shortable_def set_Array_from_Set)
  show "distinct (api_shortable U)"
    by (simp add: api_shortable_def distinct_Array_from_Set)
  assume "\<forall>u \<in> set U. token u = tok \<longrightarrow> \<not> shortable u"
  then show "tok \<notin> set (api_shortable U)"
    unfolding s by blast
qed

theorem api_shortable_tokens_witness:
  "api_shortable sample_unlocks = [''AAA'']
   \<and> list_all (\<lambda>u. token u \<noteq> ''BBB'' \<or> shortable u = False) sample_unlocks
   \<and> ''BBB'' \<notin> set (api_shortable sample_unlocks)
   \<and> ''AAA'' \<in> set (api_shortable sample_unlocks)"
proof -
  have v: "api_shortable sample_unlocks = [''AAA'']"
    by (simp add: api_shortable_def sample_unlocks_def)
  have h: "\<forall>u \<in> set sample_unlocks. token u = ''BBB'' \<longrightarrow> \<not> shortable u"
    by (simp add: sample_unlocks_def)
  have r: "''BBB'' \<notin> set (api_shortable sample_unlocks)"
    using api_shortable_tokens [of sample_unlocks "''BBB''"] h by blast
  have a: "''AAA'' \<in> set (api_shortable sample_unlocks)"
    using v by simp
  have h': "list_all (\<lambda>u. token u \<noteq> ''BBB'' \<or> shortable u = False) sample_unlocks"
    by (simp add: sample_unlocks_def)
  show ?thesis using v h' r a by blast
qed

end
